theory Spec2Isabelle
  imports Complex_Main "HOL-Library.Sublist"
begin

section \<open>Exceptions and results\<close>

text \<open>
  The Python exceptions that the two modules can see.  \<open>ClientResponseError\<close> carries the
  HTTP status, as aiohttp's \<^verbatim>\<open>err.status\<close> does; \<open>ClientError\<close> stands for every
  aiohttp \<^verbatim>\<open>ClientError\<close> that is not a \<^verbatim>\<open>ClientResponseError\<close> (connection
  reset, DNS failure, ...).  \<open>OtherException\<close> is any other subclass of
  \<^verbatim>\<open>Exception\<close>.
\<close>

datatype exn =
    ClientResponseError int
  | ClientError
  | ValueError
  | TypeError
  | KeyError
  | IndexError
  | ZeroDivisionError
  | OtherException

datatype 'a result = Returned 'a | Raised exn

text \<open>Sequencing of two steps, the second of which runs only when the first returns.\<close>

fun and_then :: "'a result \<Rightarrow> ('a \<Rightarrow> 'b result) \<Rightarrow> 'b result" where
  "and_then (Returned x) f = f x"
| "and_then (Raised e) f = Raised e"

section \<open>The forecast client (metoffice_datahub_api.py)\<close>

text \<open>\<^verbatim>\<open>ENDPOINTS\<close> of const.py.\<close>

definition ENDPOINTS :: "(string \<times> string) list" where
  "ENDPOINTS =
     [(''hourly'', ''/hourly''),
      (''three_hourly'', ''/three-hourly''),
      (''daily'', ''/daily'')]"

text \<open>
  What the body of the \<^verbatim>\<open>try\<close> block does in one attempt:
  \<^verbatim>\<open>session.get\<close>, \<^verbatim>\<open>raise_for_status\<close> and \<^verbatim>\<open>response.json\<close>
  either hand back the parsed body or raise.  The session is the environment of the
  client; it is modelled as a function from the attempt index to that attempt's outcome,
  so that every sequence of HTTP outcomes is one such function.
\<close>

datatype 'j outcome = Body 'j | Fails exn

text \<open>
  The observable trace of one call: the requests issued (with the 0-based attempt
  index) and the calls of \<^verbatim>\<open>asyncio.sleep\<close> (with the number of seconds).
\<close>

datatype event = Request nat | Sleep nat

text \<open>
  The loop \<^verbatim>\<open>for attempt in range(3)\<close>.  The second argument is the rest of the
  range still to be run; the empty range is the fall-through to
  \<^verbatim>\<open>return None\<close>, which is \<open>Returned None\<close>.
\<close>

fun retry_loop ::
  "(nat \<Rightarrow> 'j outcome) \<Rightarrow> nat list \<Rightarrow> event list \<Rightarrow> 'j option result \<times> event list"
where
  "retry_loop session [] tr = (Returned None, tr)"
| "retry_loop session (attempt # rest) tr =
     (case session attempt of
        Body j \<Rightarrow> (Returned (Some j), tr @ [Request attempt])
      | Fails err \<Rightarrow>
          (case err of
             ClientResponseError status \<Rightarrow>
               if status = 401 then (Raised err, tr @ [Request attempt])
               else if status = 429 \<and> attempt < 2
               then retry_loop session rest (tr @ [Request attempt, Sleep (2 ^ attempt)])
               else (Raised err, tr @ [Request attempt])
           | ClientError \<Rightarrow>
               if attempt < 2
               then retry_loop session rest (tr @ [Request attempt, Sleep (2 ^ attempt)])
               else (Raised err, tr @ [Request attempt])
           | _ \<Rightarrow> (Raised err, tr @ [Request attempt])))"

definition async_get_forecast ::
  "string \<Rightarrow> (nat \<Rightarrow> 'j outcome) \<Rightarrow> 'j option result \<times> event list"
where
  "async_get_forecast forecast_type session =
     (if forecast_type \<notin> set (map fst ENDPOINTS) then (Raised ValueError, [])
      else retry_loop session [0..<3] [])"

text \<open>The requests and the sleeps of a trace.\<close>

fun requests :: "event list \<Rightarrow> nat list" where
  "requests [] = []"
| "requests (Request n # tr) = n # requests tr"
| "requests (Sleep n # tr) = requests tr"

fun sleeps :: "event list \<Rightarrow> nat list" where
  "sleeps [] = []"
| "sleeps (Request n # tr) = sleeps tr"
| "sleeps (Sleep n # tr) = n # sleeps tr"

text \<open>An attempt outcome after which the loop goes on: HTTP 429 or a transport failure.\<close>

fun retryable :: "'j outcome \<Rightarrow> bool" where
  "retryable (Fails (ClientResponseError status)) = (status = 429)"
| "retryable (Fails ClientError) = True"
| "retryable _ = False"

section \<open>Python values and the operations the presenter applies to them\<close>

text \<open>
  A parsed JSON body, and more generally a Python value held in an attribute of the
  entity: \<open>JNull\<close> is \<^verbatim>\<open>None\<close>, \<open>JArr\<close> a list, \<open>JObj\<close> a dict with string
  keys.  Numbers are exact rationals: Python's floating-point rounding is not modelled.
\<close>

datatype json =
    JNull
  | JBool bool
  | JNum rat
  | JStr string
  | JArr "json list"
  | JObj "(string \<times> json) list"

text \<open>Truth value testing, as in \<^verbatim>\<open>not x\<close>.\<close>

fun truthy :: "json \<Rightarrow> bool" where
  "truthy JNull = False"
| "truthy (JBool b) = b"
| "truthy (JNum x) = (x \<noteq> 0)"
| "truthy (JStr s) = (s \<noteq> [])"
| "truthy (JArr xs) = (xs \<noteq> [])"
| "truthy (JObj kvs) = (kvs \<noteq> [])"

text \<open>
  \<^verbatim>\<open>key in x\<close> for a string key: key membership in a dict, element membership in
  a list, substring test in a string, \<^verbatim>\<open>TypeError\<close> for a value that is not
  iterable.
\<close>

fun contains :: "string \<Rightarrow> json \<Rightarrow> bool result" where
  "contains k (JObj kvs) = Returned (map_of kvs k \<noteq> None)"
| "contains k (JArr xs) = Returned (JStr k \<in> set xs)"
| "contains k (JStr s) = Returned (sublist k s)"
| "contains k JNull = Raised TypeError"
| "contains k (JBool b) = Raised TypeError"
| "contains k (JNum x) = Raised TypeError"

text \<open>\<^verbatim>\<open>x[key]\<close> for a string key: only a dict accepts it.\<close>

fun getitem :: "json \<Rightarrow> string \<Rightarrow> json result" where
  "getitem (JObj kvs) k = (case map_of kvs k of Some v \<Rightarrow> Returned v | None \<Rightarrow> Raised KeyError)"
| "getitem JNull k = Raised TypeError"
| "getitem (JBool b) k = Raised TypeError"
| "getitem (JNum x) k = Raised TypeError"
| "getitem (JStr s) k = Raised TypeError"
| "getitem (JArr xs) k = Raised TypeError"

text \<open>
  \<^verbatim>\<open>x[0]\<close>: the first element of a list or the first character of a string,
  \<^verbatim>\<open>IndexError\<close> when it is empty; a dict parsed from JSON has no key \<open>0\<close>.
\<close>

fun getitem0 :: "json \<Rightarrow> json result" where
  "getitem0 (JArr xs) = (case xs of [] \<Rightarrow> Raised IndexError | x # _ \<Rightarrow> Returned x)"
| "getitem0 (JStr s) = (case s of [] \<Rightarrow> Raised IndexError | c # _ \<Rightarrow> Returned (JStr [c]))"
| "getitem0 (JObj kvs) = Raised KeyError"
| "getitem0 JNull = Raised TypeError"
| "getitem0 (JBool b) = Raised TypeError"
| "getitem0 (JNum x) = Raised TypeError"

text \<open>\<^verbatim>\<open>x / d\<close> for a non-zero number \<open>d\<close>; a bool counts as 0 or 1.\<close>

fun truediv :: "json \<Rightarrow> rat \<Rightarrow> json result" where
  "truediv (JNum x) d = Returned (JNum (x / d))"
| "truediv (JBool b) d = Returned (JNum ((if b then 1 else 0) / d))"
| "truediv JNull d = Raised TypeError"
| "truediv (JStr s) d = Raised TypeError"
| "truediv (JArr xs) d = Raised TypeError"
| "truediv (JObj kvs) d = Raised TypeError"

text \<open>\<^verbatim>\<open>not x or key not in x\<close>, with the short circuit.\<close>

definition invalid :: "json \<Rightarrow> string \<Rightarrow> bool result" where
  "invalid x k =
     (if \<not> truthy x then Returned True
      else and_then (contains k x) (\<lambda>b. Returned (\<not> b)))"

section \<open>The condition table (weather.py)\<close>

definition CONDITION_MAP :: "(rat \<times> string) list" where
  "CONDITION_MAP =
     [(0, ''clear-night''), (1, ''sunny''), (2, ''partlycloudy''), (3, ''partlycloudy''),
      (5, ''fog''), (6, ''fog''), (7, ''cloudy''), (8, ''cloudy''),
      (9, ''lightning-rainy''), (10, ''lightning-rainy''),
      (11, ''rainy''), (12, ''rainy''), (13, ''rainy''), (14, ''rainy''), (15, ''rainy''),
      (16, ''snowy-rainy''), (17, ''snowy-rainy''), (18, ''snowy-rainy''),
      (19, ''snowy''), (20, ''snowy''), (21, ''snowy''), (22, ''snowy''), (23, ''snowy''),
      (24, ''snowy''), (25, ''snowy''), (26, ''snowy''), (27, ''snowy''),
      (28, ''lightning''), (29, ''lightning''), (30, ''lightning'')]"

text \<open>\<^verbatim>\<open>CONDITION_MAP.get(code, "unknown")\<close> for a number.\<close>

definition condition_name :: "rat \<Rightarrow> string" where
  "condition_name code =
     (case map_of CONDITION_MAP code of Some c \<Rightarrow> c | None \<Rightarrow> ''unknown'')"

text \<open>
  The same lookup for any Python value: \<^verbatim>\<open>True\<close> and \<^verbatim>\<open>False\<close> hash and
  compare as 1 and 0, \<^verbatim>\<open>None\<close> and strings are no key of the table, lists and
  dicts are unhashable.
\<close>

fun condition_get :: "json \<Rightarrow> json result" where
  "condition_get (JNum x) = Returned (JStr (condition_name x))"
| "condition_get (JBool b) = Returned (JStr (condition_name (if b then 1 else 0)))"
| "condition_get JNull = Returned (JStr ''unknown'')"
| "condition_get (JStr s) = Returned (JStr ''unknown'')"
| "condition_get (JArr xs) = Raised TypeError"
| "condition_get (JObj kvs) = Raised TypeError"

section \<open>The presenter's refresh (weather.py, async_update)\<close>

text \<open>
  The entity: the stored response, the availability flag, the current-condition
  attributes and the messages passed to \<^verbatim>\<open>_LOGGER.error\<close>.  Until a refresh
  assigns them, the attributes have the class default of the host's
  \<^verbatim>\<open>WeatherEntity\<close>, which is \<^verbatim>\<open>None\<close> (\<open>JNull\<close>).
\<close>

record weather =
  data :: json
  attr_available :: bool
  attr_native_temperature :: json
  attr_native_apparent_temperature :: json
  attr_native_dew_point :: json
  attr_humidity :: json
  attr_native_pressure :: json
  attr_native_visibility :: json
  attr_native_wind_speed :: json
  attr_wind_bearing :: json
  attr_uv_index :: json
  attr_condition :: json
  logged :: "string list"

text \<open>The entity after \<^verbatim>\<open>__init__\<close>.\<close>

definition init :: weather where
  "init = \<lparr>data = JNull, attr_available = False,
           attr_native_temperature = JNull, attr_native_apparent_temperature = JNull,
           attr_native_dew_point = JNull, attr_humidity = JNull,
           attr_native_pressure = JNull, attr_native_visibility = JNull,
           attr_native_wind_speed = JNull, attr_wind_bearing = JNull,
           attr_uv_index = JNull, attr_condition = JNull, logged = []\<rparr>"

definition log_error :: "string \<Rightarrow> weather \<Rightarrow> weather" where
  "log_error msg s = s\<lparr>logged := logged s @ [msg]\<rparr>"

text \<open>
  One statement of the method body that evaluates an expression and goes on with its
  value; an exception raised by the expression leaves the method with the state as it
  is at that point.
\<close>

fun step ::
  "'a result \<Rightarrow> ('a \<Rightarrow> weather \<Rightarrow> unit result \<times> weather) \<Rightarrow> weather \<Rightarrow> unit result \<times> weather"
where
  "step (Returned x) k s = k x s"
| "step (Raised e) k s = (Raised e, s)"

text \<open>
  An assignment \<^verbatim>\<open>self.attr = expression\<close>: the attribute is set when the
  expression has a value, and stays as it is when the expression raises.
\<close>

fun assign ::
  "(json \<Rightarrow> weather \<Rightarrow> weather) \<Rightarrow> json result \<Rightarrow> weather \<Rightarrow> unit result \<times> weather"
where
  "assign setter (Returned v) s = (Returned (), setter v s)"
| "assign setter (Raised e) s = (Raised e, s)"

text \<open>Statements run one after the other, up to the first that raises.\<close>

fun statements ::
  "(weather \<Rightarrow> unit result \<times> weather) list \<Rightarrow> weather \<Rightarrow> unit result \<times> weather"
where
  "statements [] s = (Returned (), s)"
| "statements (statement # rest) s =
     (case statement s of
        (Returned u, s') \<Rightarrow> statements rest s'
      | (Raised e, s') \<Rightarrow> (Raised e, s'))"

text \<open>The ten assignments of the current conditions, in the order of the source.\<close>

definition update_current :: "json \<Rightarrow> weather \<Rightarrow> unit result \<times> weather" where
  "update_current current =
     statements
       [assign (\<lambda>v s. s\<lparr>attr_native_temperature := v\<rparr>)
          (getitem current ''screenTemperature''),
        assign (\<lambda>v s. s\<lparr>attr_native_apparent_temperature := v\<rparr>)
          (getitem current ''feelsLikeTemperature''),
        assign (\<lambda>v s. s\<lparr>attr_native_dew_point := v\<rparr>)
          (getitem current ''screenDewPointTemperature''),
        assign (\<lambda>v s. s\<lparr>attr_humidity := v\<rparr>)
          (getitem current ''screenRelativeHumidity''),
        assign (\<lambda>v s. s\<lparr>attr_native_pressure := v\<rparr>)
          (and_then (getitem current ''mslp'') (\<lambda>mslp. truediv mslp 100)),
        assign (\<lambda>v s. s\<lparr>attr_native_visibility := v\<rparr>)
          (getitem current ''visibility''),
        assign (\<lambda>v s. s\<lparr>attr_native_wind_speed := v\<rparr>)
          (getitem current ''windSpeed10m''),
        assign (\<lambda>v s. s\<lparr>attr_wind_bearing := v\<rparr>)
          (getitem current ''windDirectionFrom10m''),
        assign (\<lambda>v s. s\<lparr>attr_uv_index := v\<rparr>)
          (getitem current ''uvIndex''),
        assign (\<lambda>v s. s\<lparr>attr_condition := v\<rparr>)
          (and_then (getitem current ''significantWeatherCode'') condition_get)]"

text \<open>The part of \<^verbatim>\<open>async_update\<close> after the \<^verbatim>\<open>try\<close> statement.\<close>

definition validate_and_update :: "weather \<Rightarrow> unit result \<times> weather" where
  "validate_and_update s0 =
     step (invalid (data s0) ''features'') (\<lambda>bad s.
       if bad then (Returned (), log_error ''Invalid data received from Met Office (DataHub)'' s)
       else
     step (and_then (getitem (data s) ''features'') getitem0) (\<lambda>feature s.
     step (invalid feature ''properties'') (\<lambda>bad s.
       if bad
       then (Returned (), log_error ''Invalid feature data received from Met Office (DataHub)'' s)
       else
     step (getitem feature ''properties'') (\<lambda>properties s.
     step (invalid properties ''timeSeries'') (\<lambda>bad s.
       if bad
       then (Returned (),
             log_error ''Invalid properties data received from Met Office (DataHub)'' s)
       else
     step (and_then (getitem properties ''timeSeries'') getitem0) (\<lambda>current s.
       if \<not> truthy current
       then (Returned (),
             log_error
               ''Invalid current conditions data received from Met Office (DataHub)'' s)
       else update_current current s) s) s) s) s) s) s0"

text \<open>The Python value that a call of \<^verbatim>\<open>async_get_forecast\<close> hands back.\<close>

fun py_value :: "json option \<Rightarrow> json" where
  "py_value None = JNull"
| "py_value (Some j) = j"

text \<open>
  \<^verbatim>\<open>async_update\<close>, given what the awaited call of the client did.  The result is
  \<open>Returned ()\<close> when the method returns and \<open>Raised e\<close> when the exception \<open>e\<close>
  leaves it.
\<close>

definition async_update_with :: "json option result \<Rightarrow> weather \<Rightarrow> unit result \<times> weather" where
  "async_update_with fetched s =
     (case fetched of
        Raised err \<Rightarrow>
          (Returned (),
           (log_error ''Error fetching Met Office (DataHub) data'' s)\<lparr>attr_available := False\<rparr>)
      | Returned r \<Rightarrow> validate_and_update (s\<lparr>data := py_value r, attr_available := True\<rparr>))"

definition async_update :: "(nat \<Rightarrow> json outcome) \<Rightarrow> weather \<Rightarrow> unit result \<times> weather" where
  "async_update session s = async_update_with (fst (async_get_forecast ''hourly'' session)) s"

section \<open>The daily forecast (weather.py, async_forecast_daily)\<close>

text \<open>
  The forecast views read a stored response that has the required shape.  A time-series
  entry is the record of the keys that the aggregation reads; its numbers are rationals.
\<close>

record entry =
  time :: string
  screenTemperature :: rat
  significantWeatherCode :: rat
  windSpeed10m :: rat
  windDirectionFrom10m :: rat
  probOfPrecipitation :: rat
  precipitationRate :: rat

record forecast_properties =
  timeSeries :: "entry list"

record forecast_feature =
  properties :: forecast_properties

record forecast_response =
  features :: "forecast_feature list"

text \<open>
  The dict built by \<^verbatim>\<open>_create_daily_forecast\<close>; the fields are named after the
  host's \<^verbatim>\<open>ATTR_FORECAST_*\<close> constants that are its keys.
\<close>

record daily_forecast =
  forecast_time :: string
  forecast_native_temp :: rat
  forecast_native_temp_low :: rat
  forecast_condition :: string
  forecast_native_precipitation :: rat
  forecast_precipitation_probability :: rat
  forecast_wind_speed :: rat
  forecast_wind_bearing :: rat

subsection \<open>Python's built-in reducers\<close>

text \<open>\<^verbatim>\<open>xs[0]\<close> on a list.\<close>

fun first :: "'a list \<Rightarrow> 'a result" where
  "first [] = Raised IndexError"
| "first (x # xs) = Returned x"

text \<open>
  \<^verbatim>\<open>max(xs, key=f)\<close>: one pass that keeps the first item whose key is the largest,
  \<^verbatim>\<open>ValueError\<close> on an empty argument.  \<^verbatim>\<open>max(xs)\<close> and \<^verbatim>\<open>min(xs)\<close>
  are the same pass on the items themselves.
\<close>

fun py_max_key :: "('a \<Rightarrow> 'b::linorder) \<Rightarrow> 'a list \<Rightarrow> 'a result" where
  "py_max_key f [] = Raised ValueError"
| "py_max_key f (x # xs) = Returned (foldl (\<lambda>best y. if f best < f y then y else best) x xs)"

fun py_max :: "'a::linorder list \<Rightarrow> 'a result" where
  "py_max [] = Raised ValueError"
| "py_max (x # xs) = Returned (foldl (\<lambda>best y. if best < y then y else best) x xs)"

fun py_min :: "'a::linorder list \<Rightarrow> 'a result" where
  "py_min [] = Raised ValueError"
| "py_min (x # xs) = Returned (foldl (\<lambda>best y. if y < best then y else best) x xs)"

text \<open>\<^verbatim>\<open>sum(xs)\<close>: a left fold from 0.\<close>

definition py_sum :: "rat list \<Rightarrow> rat" where
  "py_sum xs = foldl (+) 0 xs"

text \<open>\<^verbatim>\<open>x / len(xs)\<close>.\<close>

definition div_len :: "rat \<Rightarrow> 'a list \<Rightarrow> rat result" where
  "div_len x xs =
     (if length xs = 0 then Raised ZeroDivisionError
      else Returned (x / of_nat (length xs)))"

subsection \<open>One day\<close>

text \<open>
  \<^verbatim>\<open>_create_daily_forecast\<close>.  The order in which \<^verbatim>\<open>set(conditions)\<close> is iterated
  belongs to the Python runtime and not to this repository; it is the parameter
  \<open>set_iter\<close>, which maps the list of codes to the sequence in which the set built
  from it yields them.
\<close>

definition create_daily_forecast ::
  "(rat list \<Rightarrow> rat list) \<Rightarrow> entry list \<Rightarrow> daily_forecast result"
where
  "create_daily_forecast set_iter daily_data =
     (let temps = map screenTemperature daily_data;
          conditions = map significantWeatherCode daily_data;
          wind_speeds = map windSpeed10m daily_data;
          wind_bearings = map windDirectionFrom10m daily_data;
          precip_probs = map probOfPrecipitation daily_data
      in
        and_then (py_max_key (count_list conditions) (set_iter conditions)) (\<lambda>condition_code.
        and_then (first daily_data) (\<lambda>e0.
        and_then (py_max temps) (\<lambda>temp_high.
        and_then (py_min temps) (\<lambda>temp_low.
        and_then (py_max precip_probs) (\<lambda>prob_max.
        and_then (py_max wind_speeds) (\<lambda>speed_max.
        and_then (div_len (py_sum wind_bearings) wind_bearings) (\<lambda>bearing_mean.
          Returned
            \<lparr>forecast_time = time e0,
             forecast_native_temp = temp_high,
             forecast_native_temp_low = temp_low,
             forecast_condition = condition_name condition_code,
             forecast_native_precipitation = py_sum (map precipitationRate daily_data),
             forecast_precipitation_probability = prob_max,
             forecast_wind_speed = speed_max,
             forecast_wind_bearing = bearing_mean\<rparr>))))))))"

subsection \<open>Grouping into days\<close>

text \<open>
  The loop of \<^verbatim>\<open>async_forecast_daily\<close> over the rest of the time series, with the
  three loop variables \<^verbatim>\<open>daily_forecasts\<close>, \<^verbatim>\<open>current_day\<close> and
  \<^verbatim>\<open>daily_data\<close>; the empty rest is the code after the loop.  \<open>parse_date\<close> is
  the host's \<^verbatim>\<open>dt_util.parse_datetime\<close> followed by \<^verbatim>\<open>.date()\<close>:
  \<open>None\<close> for a timestamp that does not parse.
\<close>

fun daily_loop ::
  "(string \<Rightarrow> 'd option) \<Rightarrow> (rat list \<Rightarrow> rat list) \<Rightarrow> entry list \<Rightarrow>
   daily_forecast list \<Rightarrow> 'd option \<Rightarrow> entry list \<Rightarrow> daily_forecast list result"
where
  "daily_loop parse_date set_iter [] daily_forecasts current_day daily_data =
     (if daily_data \<noteq> []
      then and_then (create_daily_forecast set_iter daily_data)
             (\<lambda>forecast. Returned (daily_forecasts @ [forecast]))
      else Returned daily_forecasts)"
| "daily_loop parse_date set_iter (entry # rest) daily_forecasts current_day daily_data =
     (case parse_date (time entry) of
        None \<Rightarrow> daily_loop parse_date set_iter rest daily_forecasts current_day daily_data
      | Some day \<Rightarrow>
          (case current_day of
             None \<Rightarrow>
               daily_loop parse_date set_iter rest daily_forecasts (Some day)
                 (daily_data @ [entry])
           | Some cur \<Rightarrow>
               if day \<noteq> cur then
                 (if daily_data \<noteq> []
                  then and_then (create_daily_forecast set_iter daily_data)
                         (\<lambda>forecast.
                            daily_loop parse_date set_iter rest (daily_forecasts @ [forecast])
                              (Some day) [entry])
                  else daily_loop parse_date set_iter rest daily_forecasts (Some day) [entry])
               else
                 daily_loop parse_date set_iter rest daily_forecasts current_day
                   (daily_data @ [entry])))"

text \<open>
  \<^verbatim>\<open>async_forecast_daily\<close> on the stored response (\<open>None\<close> when nothing is
  stored).
\<close>

definition async_forecast_daily ::
  "(string \<Rightarrow> 'd option) \<Rightarrow> (rat list \<Rightarrow> rat list) \<Rightarrow> forecast_response option \<Rightarrow>
   daily_forecast list option result"
where
  "async_forecast_daily parse_date set_iter stored =
     (case stored of
        None \<Rightarrow> Returned None
      | Some response \<Rightarrow>
          and_then (first (features response)) (\<lambda>feature.
          and_then (daily_loop parse_date set_iter (timeSeries (properties feature)) [] None [])
            (\<lambda>daily_forecasts. Returned (Some daily_forecasts))))"

subsection \<open>The grouping as the specification words it\<close>

text \<open>
  The contiguous runs of a sequence by a key: a new run starts wherever the key of an
  item differs from the key of the item before it.
\<close>

fun runs_by :: "('a \<Rightarrow> 'k) \<Rightarrow> 'a list \<Rightarrow> 'a list list" where
  "runs_by key [] = []"
| "runs_by key (x # xs) =
     (case runs_by key xs of
        [] \<Rightarrow> [[x]]
      | g # gs \<Rightarrow> if key x = key (hd g) then (x # g) # gs else [x] # g # gs)"

text \<open>The days of a time series: the runs by calendar date of the entries that parse.\<close>

definition parses :: "(string \<Rightarrow> 'd option) \<Rightarrow> entry \<Rightarrow> bool" where
  "parses parse_date e = (parse_date (time e) \<noteq> None)"

definition date_runs :: "(string \<Rightarrow> 'd option) \<Rightarrow> entry list \<Rightarrow> entry list list" where
  "date_runs parse_date ts =
     runs_by (\<lambda>e. parse_date (time e)) (filter (parses parse_date) ts)"

text \<open>The results of a sequence of calls made in order, up to the first that raises.\<close>

fun collect :: "'a result list \<Rightarrow> 'a list result" where
  "collect [] = Returned []"
| "collect (r # rs) = and_then r (\<lambda>x. and_then (collect rs) (\<lambda>xs. Returned (x # xs)))"

text \<open>
  The mode as the specification words it: the most frequent code, the first
  encountered in the day among equally frequent ones.
\<close>

definition first_encountered_mode :: "rat list \<Rightarrow> rat result" where
  "first_encountered_mode conditions = py_max_key (count_list conditions) conditions"

text \<open>
  Two stand-ins for evaluation on concrete inputs: the calendar date of an ISO
  timestamp is its first ten characters, and a set of small non-negative integers is
  iterated by CPython in ascending order (each sits in the slot of its own value).
\<close>

definition iso_date :: "string \<Rightarrow> string option" where
  "iso_date s = (if length s < 10 then None else Some (take 10 s))"

definition ascending :: "rat list \<Rightarrow> rat list" where
  "ascending xs = sort (remdups xs)"

section \<open>Notions used to state the properties\<close>

text \<open>
  A session given by the outcomes of its first attempts and the outcome of every later
  one.
\<close>

definition replies :: "'j outcome list \<Rightarrow> 'j outcome \<Rightarrow> nat \<Rightarrow> 'j outcome" where
  "replies outs later i = (if i < length outs then outs ! i else later)"

text \<open>
  The Python value that a call of the client hands to its caller, when it returns:
  \<open>JNull\<close> is \<^verbatim>\<open>None\<close>.
\<close>

definition returned_value :: "string \<Rightarrow> (nat \<Rightarrow> json outcome) \<Rightarrow> json result" where
  "returned_value forecast_type session =
     (case fst (async_get_forecast forecast_type session) of
        Returned r \<Rightarrow> Returned (py_value r)
      | Raised e \<Rightarrow> Raised e)"

text \<open>
  A value in which a required key is absent: \<^verbatim>\<open>None\<close>, or a dict without the
  key.
\<close>

fun lacks :: "json \<Rightarrow> string \<Rightarrow> bool" where
  "lacks (JObj kvs) k = (map_of kvs k = None)"
| "lacks JNull k = True"
| "lacks _ k = False"

text \<open>The current-conditions view: the ten attributes that the host reads.\<close>

definition current_conditions :: "weather \<Rightarrow> json list" where
  "current_conditions s =
     [attr_native_temperature s, attr_native_apparent_temperature s,
      attr_native_dew_point s, attr_humidity s, attr_native_pressure s,
      attr_native_visibility s, attr_native_wind_speed s, attr_wind_bearing s,
      attr_uv_index s, attr_condition s]"

text \<open>
  A refresh that stores no data: the call of the client raises, or hands back
  \<^verbatim>\<open>None\<close> or an empty value.
\<close>

definition stores_no_data :: "(nat \<Rightarrow> json outcome) \<Rightarrow> bool" where
  "stores_no_data session =
     (case fst (async_get_forecast ''hourly'' session) of
        Raised e \<Rightarrow> True
      | Returned r \<Rightarrow> \<not> truthy (py_value r))"

text \<open>A sequence of polls, one session each; the host goes on after a poll that raised.\<close>

fun refreshes :: "(nat \<Rightarrow> json outcome) list \<Rightarrow> weather \<Rightarrow> weather" where
  "refreshes [] s = s"
| "refreshes (session # sessions) s = refreshes sessions (snd (async_update session s))"

text \<open>
  \<open>c\<close> is the first item of \<open>xs\<close> whose key is the largest: every item before it has a
  smaller key, no item after it has a larger one.
\<close>

definition first_max :: "('a \<Rightarrow> 'b::linorder) \<Rightarrow> 'a list \<Rightarrow> 'a \<Rightarrow> bool" where
  "first_max f xs c \<longleftrightarrow>
     (\<exists>before after. xs = before @ c # after
        \<and> (\<forall>y \<in> set before. f y < f c) \<and> (\<forall>y \<in> set after. f y \<le> f c))"

text \<open>A well-formed body with one entry, for evaluation on a concrete input.\<close>

definition example_current :: "rat \<Rightarrow> (string \<times> json) list" where
  "example_current code =
     [(''time'', JStr ''2024-05-01T12:00Z''),
      (''screenTemperature'', JNum 11.5),
      (''feelsLikeTemperature'', JNum 9.25),
      (''screenDewPointTemperature'', JNum 7),
      (''screenRelativeHumidity'', JNum 81),
      (''mslp'', JNum 101325),
      (''visibility'', JNum 20000),
      (''windSpeed10m'', JNum 4.5),
      (''windDirectionFrom10m'', JNum 240),
      (''uvIndex'', JNum 3),
      (''significantWeatherCode'', JNum code)]"

definition example_body :: "rat \<Rightarrow> json" where
  "example_body code =
     JObj [(''type'', JStr ''FeatureCollection''),
           (''features'',
            JArr [JObj [(''type'', JStr ''Feature''),
                        (''properties'',
                         JObj [(''timeSeries'', JArr [JObj (example_current code)])])]])]"

text \<open>A time-series entry, for evaluation on a concrete input.\<close>

definition example_entry :: "string \<Rightarrow> rat \<Rightarrow> rat \<Rightarrow> entry" where
  "example_entry t temperature code =
     \<lparr>time = t, screenTemperature = temperature, significantWeatherCode = code,
      windSpeed10m = 4, windDirectionFrom10m = 10 * temperature, probOfPrecipitation = 20,
      precipitationRate = 1 / 2\<rparr>"

text \<open>A time series with a second run of the first date, for evaluation.\<close>

definition example_series :: "entry list" where
  "example_series =
     [example_entry ''2024-05-01T22:00Z'' 8 7,
      example_entry ''2024-05-01T23:00Z'' 6 7,
      example_entry ''n/a'' 50 30,
      example_entry ''2024-05-02T00:00Z'' 5 1,
      example_entry ''2024-05-01T23:30Z'' 9 12]"

section \<open>Properties of the forecast client\<close>

lemma range_3: "[0..<3] = [0, 1, 2]"
  by (simp add: upt_rec)

lemma retry_loop_fall_through:
  "fst (retry_loop session as tr) = Returned None \<Longrightarrow> a \<in> set as \<Longrightarrow> a < 2"
proof (induction as arbitrary: tr)
  case Nil
  then show ?case by simp
next
  case (Cons b bs)
  then show ?case
    by (auto split: outcome.splits exn.splits if_splits)
qed

lemma retry_loop_body:
  "fst (retry_loop session as tr) = Returned (Some j) \<Longrightarrow> \<exists>k \<in> set as. session k = Body j"
proof (induction as arbitrary: tr)
  case Nil
  then show ?case by simp
next
  case (Cons b bs)
  then show ?case
    by (auto split: outcome.splits exn.splits if_splits)
qed

text \<open>
  \<^bold>\<open>C4.\<close>  For a valid resolution, a call issues at most three requests whatever the
  session does, and its sleeps are the first ones of 1 second and then 2 seconds.  As long as the attempts end in HTTP 429 or in a transport failure
  (\<open>retryable\<close>), the call sleeps \<open>2 ^ attempt\<close> seconds and tries again: 1 second after
  the first failure, 2 seconds after the second.  When the third attempt fails in that way
  too, the call raises the error of that third attempt without sleeping and without a
  fourth request.  When the first, second or third attempt hands back a body after
  retryable failures only, the call returns that body at once, with no further sleep or
  request.  The trace lists the requests and the sleeps in the order in which they happen.
\<close>

theorem fetch_retry_policy:
  fixes session :: "nat \<Rightarrow> 'j outcome"
  assumes "forecast_type \<in> set (map fst ENDPOINTS)"
  shows "length (requests (snd (async_get_forecast forecast_type session))) \<le> 3
    \<and> prefix (sleeps (snd (async_get_forecast forecast_type session))) [1, 2]
    \<and> (\<forall>j. session 0 = Body j \<longrightarrow>
          async_get_forecast forecast_type session = (Returned (Some j), [Request 0]))
    \<and> (\<forall>j. retryable (session 0) \<and> session 1 = Body j \<longrightarrow>
          async_get_forecast forecast_type session =
            (Returned (Some j), [Request 0, Sleep 1, Request 1]))
    \<and> (\<forall>j. retryable (session 0) \<and> retryable (session 1) \<and> session 2 = Body j \<longrightarrow>
          async_get_forecast forecast_type session =
            (Returned (Some j), [Request 0, Sleep 1, Request 1, Sleep 2, Request 2]))
    \<and> (\<forall>e. retryable (session 0) \<and> retryable (session 1) \<and> retryable (session 2)
            \<and> session 2 = Fails e \<longrightarrow>
          async_get_forecast forecast_type session =
            (Raised e, [Request 0, Sleep 1, Request 1, Sleep 2, Request 2]))"
  using assms
  by (auto simp: async_get_forecast_def range_3 split: outcome.splits exn.splits)

text \<open>
  Three rate-limited attempts: sleeps of 1 and 2 seconds, then the error of the third
  attempt.  One transport failure and then a success: the body of the second attempt
  after two requests.
\<close>

theorem fetch_retry_policy_witness:
  "async_get_forecast ''hourly'' (\<lambda>i. Fails (ClientResponseError 429) :: nat outcome) =
     (Raised (ClientResponseError 429), [Request 0, Sleep 1, Request 1, Sleep 2, Request 2])
   \<and> async_get_forecast ''hourly'' (\<lambda>i. if i = 0 then Fails ClientError else Body (7::nat)) =
     (Returned (Some 7), [Request 0, Sleep 1, Request 1])"
  using fetch_retry_policy [of "''hourly''" "\<lambda>i. Fails (ClientResponseError 429) :: nat outcome"]
    fetch_retry_policy [of "''hourly''" "\<lambda>i. if i = 0 then Fails ClientError else Body (7::nat)"]
  by (simp add: ENDPOINTS_def)

text \<open>
  \<^bold>\<open>C5.\<close>  For a valid resolution, when the first attempt raises the response error of
  a status other than 429 (401 among them), the call raises that same error, which
  carries the status, after this one request: the trace holds no sleep and no second
  request.
\<close>

theorem fetch_fails_immediately:
  fixes session :: "nat \<Rightarrow> 'j outcome"
  assumes "forecast_type \<in> set (map fst ENDPOINTS)"
    and "session 0 = Fails (ClientResponseError status)"
    and "status \<noteq> 429"
  shows "async_get_forecast forecast_type session =
           (Raised (ClientResponseError status), [Request 0])"
  using assms by (simp add: async_get_forecast_def range_3)

theorem fetch_fails_immediately_witness:
  "async_get_forecast ''daily''
     (\<lambda>i. if i = 0 then Fails (ClientResponseError 401) else Body (1::nat)) =
     (Raised (ClientResponseError 401), [Request 0])
   \<and> async_get_forecast ''hourly'' (\<lambda>i. Fails (ClientResponseError 503) :: nat outcome) =
     (Raised (ClientResponseError 503), [Request 0])"
  using fetch_fails_immediately
      [of "''daily''" "\<lambda>i. if i = 0 then Fails (ClientResponseError 401) else Body (1::nat)" 401]
    fetch_fails_immediately
      [of "''hourly''" "\<lambda>i. Fails (ClientResponseError 503) :: nat outcome" 503]
  by (simp add: ENDPOINTS_def)

text \<open>
  \<^bold>\<open>C6.\<close>  For a forecast type that is no key of \<open>ENDPOINTS\<close>, the call raises
  \<open>ValueError\<close> with an empty trace: no request is issued and nothing is retried.
\<close>

theorem invalid_resolution_no_request:
  assumes "forecast_type \<notin> set (map fst ENDPOINTS)"
  shows "async_get_forecast forecast_type session = (Raised ValueError, [])"
  using assms by (simp add: async_get_forecast_def)

theorem invalid_resolution_no_request_witness:
  "async_get_forecast ''weekly'' (\<lambda>i. Body (1::nat)) = (Raised ValueError, [])"
  using invalid_resolution_no_request [of "''weekly''" "\<lambda>i. Body (1::nat)"]
  by (simp add: ENDPOINTS_def)

lemma fetch_result_cases:
  fixes session :: "nat \<Rightarrow> 'j outcome"
  assumes "forecast_type \<in> set (map fst ENDPOINTS)"
  shows "(\<exists>e. fst (async_get_forecast forecast_type session) = Raised e)
       \<or> (\<exists>k j. k < 3 \<and> session k = Body j
              \<and> fst (async_get_forecast forecast_type session) = Returned (Some j))"
proof -
  let ?r = "fst (retry_loop session [0..<3] [])"
  have eq: "fst (async_get_forecast forecast_type session) = ?r"
    using assms by (simp add: async_get_forecast_def)
  have no_none: "?r \<noteq> Returned None"
  proof
    assume "?r = Returned None"
    then have "(2::nat) < 2"
      by (rule retry_loop_fall_through) simp
    then show False by simp
  qed
  have "(\<exists>e. ?r = Raised e) \<or> (\<exists>k j. k < 3 \<and> session k = Body j \<and> ?r = Returned (Some j))"
  proof (cases ?r)
    case (Raised e)
    then show ?thesis by simp
  next
    case (Returned v)
    with no_none obtain j where j: "?r = Returned (Some j)"
      by (cases v) auto
    from retry_loop_body [OF j] obtain k where "k \<in> set [0..<3]" "session k = Body j"
      by blast
    with j show ?thesis by auto
  qed
  with eq show ?thesis by simp
qed

text \<open>
  \<^bold>\<open>C10 as stated fails.\<close>  On a successful response whose body is the JSON value
  \<^verbatim>\<open>null\<close>, the call returns the parsed body, which is \<^verbatim>\<open>None\<close>.
\<close>

theorem null_body_counterexample:
  "returned_value ''hourly'' (replies [] (Body JNull)) = Returned JNull"
  by (simp add: returned_value_def async_get_forecast_def range_3 ENDPOINTS_def replies_def)

text \<open>
  \<^bold>\<open>C10, amended.\<close>  For a valid resolution and every session, the call never takes
  the fall-through \<^verbatim>\<open>return None\<close> after the loop (\<open>Returned None\<close>): it either
  raises, or returns the body that one of the three attempts handed back.  So the call
  returns \<^verbatim>\<open>None\<close> only when that parsed body is itself \<^verbatim>\<open>None\<close>.
\<close>

theorem fetch_never_falls_through:
  fixes session :: "nat \<Rightarrow> 'j outcome" and responses :: "nat \<Rightarrow> json outcome"
  assumes "forecast_type \<in> set (map fst ENDPOINTS)"
  shows "fst (async_get_forecast forecast_type session) \<noteq> Returned None
    \<and> ((\<exists>e. fst (async_get_forecast forecast_type session) = Raised e)
       \<or> (\<exists>k j. k < 3 \<and> session k = Body j
              \<and> fst (async_get_forecast forecast_type session) = Returned (Some j)))
    \<and> (returned_value forecast_type responses = Returned JNull \<longrightarrow>
          (\<exists>k. k < 3 \<and> responses k = Body JNull))"
proof -
  from fetch_result_cases [OF assms, of session]
  have cases: "(\<exists>e. fst (async_get_forecast forecast_type session) = Raised e)
       \<or> (\<exists>k j. k < 3 \<and> session k = Body j
              \<and> fst (async_get_forecast forecast_type session) = Returned (Some j))" .
  then have taken: "fst (async_get_forecast forecast_type session) \<noteq> Returned None"
    by auto
  have null: "returned_value forecast_type responses = Returned JNull \<longrightarrow>
          (\<exists>k. k < 3 \<and> responses k = Body JNull)"
  proof
    assume none: "returned_value forecast_type responses = Returned JNull"
    from fetch_result_cases [OF assms, of responses] show "\<exists>k. k < 3 \<and> responses k = Body JNull"
    proof
      assume "\<exists>e. fst (async_get_forecast forecast_type responses) = Raised e"
      with none show ?thesis by (auto simp: returned_value_def)
    next
      assume "\<exists>k j. k < 3 \<and> responses k = Body j
              \<and> fst (async_get_forecast forecast_type responses) = Returned (Some j)"
      then obtain k j where "k < 3" "responses k = Body j"
        "fst (async_get_forecast forecast_type responses) = Returned (Some j)"
        by blast
      with none show ?thesis by (auto simp: returned_value_def)
    qed
  qed
  from taken cases null show ?thesis by (intro conjI)
qed

theorem fetch_never_falls_through_witness:
  "fst (async_get_forecast ''three_hourly'' (replies [] (Fails ClientError :: nat outcome)))
     \<noteq> Returned None
   \<and> returned_value ''daily'' (replies [Fails ClientError] (Body (JObj []))) \<noteq> Returned JNull"
  using fetch_never_falls_through
    [of "''three_hourly''" "replies [] (Fails ClientError :: nat outcome)"
      "replies [Fails ClientError] (Body (JObj []))"]
    fetch_never_falls_through
    [of "''daily''" "replies [] (Fails ClientError :: nat outcome)"
      "replies [Fails ClientError] (Body (JObj []))"]
  by (auto simp: ENDPOINTS_def replies_def less_Suc_eq eval_nat_numeral)

section \<open>Properties of the refresh\<close>

lemma invalid_lacks: "lacks x k \<Longrightarrow> invalid x k = Returned True"
  by (cases x) (auto simp: invalid_def)

lemma getitem_Returned: "getitem x k = Returned v \<Longrightarrow> invalid x k = Returned False"
  by (cases x) (auto simp: invalid_def split: option.splits)

lemma fetch_replies_body:
  "async_get_forecast ''hourly'' (replies [] (Body body)) = (Returned (Some body), [Request 0])"
  by (simp add: async_get_forecast_def range_3 ENDPOINTS_def replies_def)

text \<open>
  \<^bold>\<open>C1.\<close>  The claim says that no exception leaves the refresh, whatever the shape of
  the body.  The method guards against a missing key, yet it indexes
  \<^verbatim>\<open>self._data["features"][0]\<close> before it looks at the feature: on a body whose
  \<open>features\<close> list is empty, \<open>IndexError\<close> leaves the method.
\<close>

theorem refresh_empty_features_raises:
  "fst (async_update (replies [] (Body (JObj [(''features'', JArr [])]))) init)
     = Raised IndexError"
  by (simp add: async_update_def async_update_with_def fetch_replies_body
      validate_and_update_def invalid_def)

text \<open>
  \<^bold>\<open>C2 as stated fails.\<close>  On a body without the key \<open>features\<close> the refresh returns
  with the availability flag set, not cleared.
\<close>

theorem refresh_missing_features_counterexample:
  "\<not> (attr_available
        (snd (async_update (replies [] (Body (JObj [(''type'', JStr ''FeatureCollection'')])))
           init)) = False)"
  by (simp add: async_update_def async_update_with_def fetch_replies_body
      validate_and_update_def invalid_def log_error_def)

text \<open>
  \<^bold>\<open>C2, amended.\<close>  When the call of the client hands back a body in which a required
  key is absent (\<open>features\<close> in the body, \<open>properties\<close> in the first feature, or
  \<open>timeSeries\<close> in its properties), the refresh stores the body, logs the problem and
  returns without raising; the availability flag is true for that cycle, as the
  successful call left it.
\<close>

theorem refresh_missing_key:
  assumes "fst (async_get_forecast ''hourly'' session) = Returned (Some body)"
  shows "(lacks body ''features'' \<longrightarrow>
            async_update session s =
              (Returned (),
               log_error ''Invalid data received from Met Office (DataHub)''
                 (s\<lparr>data := body, attr_available := True\<rparr>)))
    \<and> (\<forall>feature rest.
          getitem body ''features'' = Returned (JArr (feature # rest))
          \<and> lacks feature ''properties'' \<longrightarrow>
            async_update session s =
              (Returned (),
               log_error ''Invalid feature data received from Met Office (DataHub)''
                 (s\<lparr>data := body, attr_available := True\<rparr>)))
    \<and> (\<forall>feature rest props.
          getitem body ''features'' = Returned (JArr (feature # rest))
          \<and> getitem feature ''properties'' = Returned props
          \<and> lacks props ''timeSeries'' \<longrightarrow>
            async_update session s =
              (Returned (),
               log_error ''Invalid properties data received from Met Office (DataHub)''
                 (s\<lparr>data := body, attr_available := True\<rparr>)))"
  using assms
  by (simp add: async_update_def async_update_with_def validate_and_update_def
      invalid_lacks getitem_Returned)

theorem refresh_missing_key_witness:
  "async_update (replies [] (Body (JObj [(''type'', JStr ''FeatureCollection'')]))) init =
     (Returned (),
      log_error ''Invalid data received from Met Office (DataHub)''
        (init\<lparr>data := JObj [(''type'', JStr ''FeatureCollection'')], attr_available := True\<rparr>))
   \<and> async_update
       (replies [] (Body (JObj [(''features'', JArr [JObj [(''type'', JStr ''Feature'')]])])))
       init =
     (Returned (),
      log_error ''Invalid feature data received from Met Office (DataHub)''
        (init\<lparr>data := JObj [(''features'', JArr [JObj [(''type'', JStr ''Feature'')]])],
              attr_available := True\<rparr>))
   \<and> async_update
       (replies [] (Body (JObj [(''features'',
          JArr [JObj [(''properties'', JObj [(''name'', JStr ''x'')])]])])))
       init =
     (Returned (),
      log_error ''Invalid properties data received from Met Office (DataHub)''
        (init\<lparr>data := JObj [(''features'',
                 JArr [JObj [(''properties'', JObj [(''name'', JStr ''x'')])]])],
              attr_available := True\<rparr>))"
  using
    refresh_missing_key [of "replies [] (Body (JObj [(''type'', JStr ''FeatureCollection'')]))"
      "JObj [(''type'', JStr ''FeatureCollection'')]" init]
    refresh_missing_key
      [of "replies [] (Body (JObj [(''features'', JArr [JObj [(''type'', JStr ''Feature'')]])]))"
        "JObj [(''features'', JArr [JObj [(''type'', JStr ''Feature'')]])]" init]
    refresh_missing_key
      [of "replies [] (Body (JObj [(''features'',
             JArr [JObj [(''properties'', JObj [(''name'', JStr ''x'')])]])]))"
        "JObj [(''features'', JArr [JObj [(''properties'', JObj [(''name'', JStr ''x'')])]])]"
        init]
  by (simp add: fetch_replies_body)

text \<open>
  \<^bold>\<open>C3.\<close>  When the call of the client raises, whatever the exception, the refresh
  returns, the availability flag is false, and the stored response is the one that was
  stored before; the only other change of the entity is the logged message.
\<close>

theorem refresh_failure_keeps_response:
  assumes "fst (async_get_forecast ''hourly'' session) = Raised err"
  shows "async_update session s =
           (Returned (),
            (log_error ''Error fetching Met Office (DataHub) data'' s)\<lparr>attr_available := False\<rparr>)
    \<and> attr_available (snd (async_update session s)) = False
    \<and> data (snd (async_update session s)) = data s"
  using assms by (simp add: async_update_def async_update_with_def log_error_def)

theorem refresh_failure_keeps_response_witness:
  "attr_available
     (snd (async_update (replies [] (Fails ClientError))
        (init\<lparr>data := JObj [(''features'', JArr [])], attr_available := True\<rparr>))) = False
   \<and> data
     (snd (async_update (replies [] (Fails ClientError))
        (init\<lparr>data := JObj [(''features'', JArr [])], attr_available := True\<rparr>)))
     = JObj [(''features'', JArr [])]"
  using refresh_failure_keeps_response
    [of "replies [] (Fails ClientError)" ClientError
      "init\<lparr>data := JObj [(''features'', JArr [])], attr_available := True\<rparr>"]
  by (simp add: async_get_forecast_def range_3 ENDPOINTS_def replies_def log_error_def)

section \<open>Properties of the current conditions\<close>

lemma update_current_well_formed:
  assumes "map_of current ''screenTemperature'' = Some temperature"
    and "map_of current ''feelsLikeTemperature'' = Some feels_like"
    and "map_of current ''screenDewPointTemperature'' = Some dew_point"
    and "map_of current ''screenRelativeHumidity'' = Some humidity"
    and "map_of current ''mslp'' = Some (JNum mslp)"
    and "map_of current ''visibility'' = Some visibility"
    and "map_of current ''windSpeed10m'' = Some wind_speed"
    and "map_of current ''windDirectionFrom10m'' = Some wind_bearing"
    and "map_of current ''uvIndex'' = Some uv_index"
    and "map_of current ''significantWeatherCode'' = Some (JNum code)"
  shows "update_current (JObj current) s =
    (Returned (),
     s\<lparr>attr_native_temperature := temperature,
       attr_native_apparent_temperature := feels_like,
       attr_native_dew_point := dew_point,
       attr_humidity := humidity,
       attr_native_pressure := JNum (mslp / 100),
       attr_native_visibility := visibility,
       attr_native_wind_speed := wind_speed,
       attr_wind_bearing := wind_bearing,
       attr_uv_index := uv_index,
       attr_condition := JStr (condition_name code)\<rparr>)"
  using assms by (simp add: update_current_def)

lemma validate_well_formed:
  assumes "getitem (data s) ''features'' = Returned (JArr (feature # others))"
    and "getitem feature ''properties'' = Returned props"
    and "getitem props ''timeSeries'' = Returned (JArr (JObj current # later))"
    and "current \<noteq> []"
  shows "validate_and_update s = update_current (JObj current) s"
  using assms by (simp add: validate_and_update_def getitem_Returned)

lemma no_data_step:
  assumes "stores_no_data session"
  shows "current_conditions (snd (async_update session s)) = current_conditions s"
    and "\<not> truthy (data s) \<Longrightarrow> \<not> truthy (data (snd (async_update session s)))"
  using assms
  by (auto simp: stores_no_data_def async_update_def async_update_with_def
      validate_and_update_def invalid_def log_error_def current_conditions_def
      split: result.splits)

lemma no_data_refreshes:
  assumes "\<forall>session \<in> set sessions. stores_no_data session"
    and "\<not> truthy (data s)"
  shows "current_conditions (refreshes sessions s) = current_conditions s
    \<and> \<not> truthy (data (refreshes sessions s))"
  using assms
proof (induction sessions arbitrary: s)
  case Nil
  then show ?case by simp
next
  case (Cons session sessions)
  then show ?case by (simp add: no_data_step)
qed

lemma condition_name_unmapped:
  "code \<notin> fst ` set CONDITION_MAP \<Longrightarrow> condition_name code = ''unknown''"
  by (simp add: condition_name_def map_of_eq_None_iff [THEN iffD2])

lemma condition_name_0: "condition_name 0 = ''clear-night''"
  by (simp add: condition_name_def CONDITION_MAP_def)

lemma current_conditions_init: "current_conditions init = replicate 10 JNull"
  by (simp add: current_conditions_def init_def eval_nat_numeral)

text \<open>
  \<^bold>\<open>C9 as stated fails.\<close>  After a refresh that stored a well-formed body, a refresh
  whose body is \<^verbatim>\<open>null\<close> leaves \<^verbatim>\<open>None\<close> as the stored data while the
  current conditions are still those of the earlier body, not \<^verbatim>\<open>None\<close>; and a
  refresh that stores a body without \<open>features\<close> leaves them as well, although they
  are not derived from the response that is now stored.
\<close>

theorem stale_conditions_counterexample:
  "data (refreshes [replies [] (Body (example_body 99)), replies [] (Body JNull)] init) = JNull
   \<and> current_conditions
       (refreshes [replies [] (Body (example_body 99)), replies [] (Body JNull)] init) =
     [JNum 11.5, JNum 9.25, JNum 7, JNum 81, JNum 1013.25, JNum 20000, JNum 4.5,
      JNum 240, JNum 3, JStr ''unknown'']
   \<and> data
       (refreshes
          [replies [] (Body (example_body 99)),
           replies [] (Body (JObj [(''type'', JStr ''FeatureCollection'')]))] init) =
     JObj [(''type'', JStr ''FeatureCollection'')]
   \<and> current_conditions
       (refreshes
          [replies [] (Body (example_body 99)),
           replies [] (Body (JObj [(''type'', JStr ''FeatureCollection'')]))] init) =
     [JNum 11.5, JNum 9.25, JNum 7, JNum 81, JNum 1013.25, JNum 20000, JNum 4.5,
      JNum 240, JNum 3, JStr ''unknown'']"
  by (simp add: async_update_def async_update_with_def fetch_replies_body
      validate_and_update_def invalid_def update_current_def example_body_def
      example_current_def current_conditions_def init_def log_error_def
      condition_name_def CONDITION_MAP_def)

text \<open>
  \<^bold>\<open>C9, amended.\<close>  When the call of the client hands back a body whose first
  feature has properties with a non-empty time series, and the first entry of that
  series has the ten keys that the method reads, with numbers for \<open>mslp\<close> and for the
  significant-weather code, then the refresh returns, stores the body, and the current
  conditions are the values of that first entry, with the pressure \<open>mslp / 100\<close> and
  the condition looked up in the table.  In the table code 0 is \<open>clear-night\<close>, and a
  code that is no key of the table gives \<open>unknown\<close>, not an error.  A freshly
  constructed entity stores no data and all its current conditions are \<open>None\<close>; they
  remain \<open>None\<close>, and no data is stored, after any sequence of refreshes none of which
  stores data.  A refresh that stores no data produces no current conditions: it
  leaves them as they were.
\<close>

theorem current_conditions_from_first_entry:
  "(fst (async_get_forecast ''hourly'' session) = Returned (Some body)
      \<and> getitem body ''features'' = Returned (JArr (feature # others))
      \<and> getitem feature ''properties'' = Returned props
      \<and> getitem props ''timeSeries'' = Returned (JArr (JObj current # later))
      \<and> map_of current ''screenTemperature'' = Some temperature
      \<and> map_of current ''feelsLikeTemperature'' = Some feels_like
      \<and> map_of current ''screenDewPointTemperature'' = Some dew_point
      \<and> map_of current ''screenRelativeHumidity'' = Some humidity
      \<and> map_of current ''mslp'' = Some (JNum mslp)
      \<and> map_of current ''visibility'' = Some visibility
      \<and> map_of current ''windSpeed10m'' = Some wind_speed
      \<and> map_of current ''windDirectionFrom10m'' = Some wind_bearing
      \<and> map_of current ''uvIndex'' = Some uv_index
      \<and> map_of current ''significantWeatherCode'' = Some (JNum code)
    \<longrightarrow> fst (async_update session s) = Returned ()
      \<and> data (snd (async_update session s)) = body
      \<and> attr_available (snd (async_update session s))
      \<and> current_conditions (snd (async_update session s)) =
          [temperature, feels_like, dew_point, humidity, JNum (mslp / 100), visibility,
           wind_speed, wind_bearing, uv_index, JStr (condition_name code)])
   \<and> condition_name 0 = ''clear-night''
   \<and> (code \<notin> fst ` set CONDITION_MAP \<longrightarrow> condition_name code = ''unknown'')
   \<and> data init = JNull
   \<and> current_conditions init = replicate 10 JNull
   \<and> ((\<forall>session \<in> set sessions. stores_no_data session) \<longrightarrow>
        \<not> truthy (data (refreshes sessions init))
        \<and> current_conditions (refreshes sessions init) = replicate 10 JNull)
   \<and> (stores_no_data poll \<longrightarrow>
        current_conditions (snd (async_update poll before)) = current_conditions before)"
proof -
  have view: "fst (async_get_forecast ''hourly'' session) = Returned (Some body)
      \<and> getitem body ''features'' = Returned (JArr (feature # others))
      \<and> getitem feature ''properties'' = Returned props
      \<and> getitem props ''timeSeries'' = Returned (JArr (JObj current # later))
      \<and> map_of current ''screenTemperature'' = Some temperature
      \<and> map_of current ''feelsLikeTemperature'' = Some feels_like
      \<and> map_of current ''screenDewPointTemperature'' = Some dew_point
      \<and> map_of current ''screenRelativeHumidity'' = Some humidity
      \<and> map_of current ''mslp'' = Some (JNum mslp)
      \<and> map_of current ''visibility'' = Some visibility
      \<and> map_of current ''windSpeed10m'' = Some wind_speed
      \<and> map_of current ''windDirectionFrom10m'' = Some wind_bearing
      \<and> map_of current ''uvIndex'' = Some uv_index
      \<and> map_of current ''significantWeatherCode'' = Some (JNum code)
    \<longrightarrow> fst (async_update session s) = Returned ()
      \<and> data (snd (async_update session s)) = body
      \<and> attr_available (snd (async_update session s))
      \<and> current_conditions (snd (async_update session s)) =
          [temperature, feels_like, dew_point, humidity, JNum (mslp / 100), visibility,
           wind_speed, wind_bearing, uv_index, JStr (condition_name code)]"
  proof (intro impI, elim conjE)
    assume fetched: "fst (async_get_forecast ''hourly'' session) = Returned (Some body)"
      and shape: "getitem body ''features'' = Returned (JArr (feature # others))"
        "getitem feature ''properties'' = Returned props"
        "getitem props ''timeSeries'' = Returned (JArr (JObj current # later))"
      and keys: "map_of current ''screenTemperature'' = Some temperature"
        "map_of current ''feelsLikeTemperature'' = Some feels_like"
        "map_of current ''screenDewPointTemperature'' = Some dew_point"
        "map_of current ''screenRelativeHumidity'' = Some humidity"
        "map_of current ''mslp'' = Some (JNum mslp)"
        "map_of current ''visibility'' = Some visibility"
        "map_of current ''windSpeed10m'' = Some wind_speed"
        "map_of current ''windDirectionFrom10m'' = Some wind_bearing"
        "map_of current ''uvIndex'' = Some uv_index"
        "map_of current ''significantWeatherCode'' = Some (JNum code)"
    let ?s = "s\<lparr>data := body, attr_available := True\<rparr>"
    from keys(1) have nonempty: "current \<noteq> []" by auto
    have "async_update session s = validate_and_update ?s"
      using fetched by (simp add: async_update_def async_update_with_def)
    also have "\<dots> = update_current (JObj current) ?s"
      using shape nonempty by (intro validate_well_formed [where feature = feature]) simp_all
    finally show "fst (async_update session s) = Returned ()
      \<and> data (snd (async_update session s)) = body
      \<and> attr_available (snd (async_update session s))
      \<and> current_conditions (snd (async_update session s)) =
          [temperature, feels_like, dew_point, humidity, JNum (mslp / 100), visibility,
           wind_speed, wind_bearing, uv_index, JStr (condition_name code)]"
      by (simp add: update_current_well_formed [OF keys] current_conditions_def)
  qed
  have none: "(\<forall>session \<in> set sessions. stores_no_data session) \<longrightarrow>
        \<not> truthy (data (refreshes sessions init))
        \<and> current_conditions (refreshes sessions init) = replicate 10 JNull"
  proof
    assume "\<forall>session \<in> set sessions. stores_no_data session"
    moreover have "\<not> truthy (data init)" by (simp add: init_def)
    ultimately show "\<not> truthy (data (refreshes sessions init))
        \<and> current_conditions (refreshes sessions init) = replicate 10 JNull"
      using no_data_refreshes [of sessions init] by (simp add: current_conditions_init)
  qed
  have unmapped: "code \<notin> fst ` set CONDITION_MAP \<longrightarrow> condition_name code = ''unknown''"
    by (simp add: condition_name_unmapped)
  have stored: "data init = JNull" by (simp add: init_def)
  have kept: "stores_no_data poll \<longrightarrow>
        current_conditions (snd (async_update poll before)) = current_conditions before"
    by (simp add: no_data_step)
  note parts = view condition_name_0 unmapped stored current_conditions_init none kept
  show ?thesis by (intro conjI parts)
qed

text \<open>
  An \<open>mslp\<close> of 101325 pascals is reported as 1013.25 hectopascals, and the
  unrecognised code 99 as \<open>unknown\<close>.
\<close>

theorem current_conditions_from_first_entry_witness:
  "current_conditions (snd (async_update (replies [] (Body (example_body 99))) init)) =
     [JNum 11.5, JNum 9.25, JNum 7, JNum 81, JNum 1013.25, JNum 20000, JNum 4.5,
      JNum 240, JNum 3, JStr ''unknown'']
   \<and> current_conditions
       (refreshes [replies [] (Fails ClientError), replies [] (Body JNull)] init) =
     [JNull, JNull, JNull, JNull, JNull, JNull, JNull, JNull, JNull, JNull]"
  using current_conditions_from_first_entry
    [of "replies [] (Body (example_body 99))" "example_body 99"
      "JObj [(''type'', JStr ''Feature''),
             (''properties'', JObj [(''timeSeries'', JArr [JObj (example_current 99)])])]"
      "[]" "JObj [(''timeSeries'', JArr [JObj (example_current 99)])]"
      "example_current 99" "[]" "JNum 11.5" "JNum 9.25" "JNum 7" "JNum 81" 101325
      "JNum 20000" "JNum 4.5" "JNum 240" "JNum 3" 99 init
      "[replies [] (Fails ClientError), replies [] (Body JNull)]"]
  by (simp add: fetch_replies_body example_body_def example_current_def stores_no_data_def
      async_get_forecast_def range_3 ENDPOINTS_def replies_def CONDITION_MAP_def
      eval_nat_numeral)

section \<open>Properties of the reducers\<close>

lemma and_then_assoc:
  "and_then (and_then r f) g = and_then r (\<lambda>x. and_then (f x) g)"
  by (cases r) simp_all

lemma foldl_max_eq:
  fixes x :: "'a::linorder"
  shows "foldl (\<lambda>best y. if best < y then y else best) x xs = Max (set (x # xs))"
proof -
  have "(\<lambda>best y::'a. if best < y then y else best) = (\<lambda>best y. max y best)"
    by (auto simp: fun_eq_iff max_def)
  then show ?thesis
    by (simp only: foldl_conv_fold Max.set_eq_fold)
qed

lemma foldl_min_eq:
  fixes x :: "'a::linorder"
  shows "foldl (\<lambda>best y. if y < best then y else best) x xs = Min (set (x # xs))"
proof -
  have "(\<lambda>best y::'a. if y < best then y else best) = (\<lambda>best y. min y best)"
    by (auto simp: fun_eq_iff min_def)
  then show ?thesis
    by (simp only: foldl_conv_fold Min.set_eq_fold)
qed

lemma py_max_eq: "xs \<noteq> [] \<Longrightarrow> py_max xs = Returned (Max (set xs))"
  by (cases xs) (simp_all add: foldl_max_eq)

lemma py_min_eq: "xs \<noteq> [] \<Longrightarrow> py_min xs = Returned (Min (set xs))"
  by (cases xs) (simp_all add: foldl_min_eq)

lemma foldl_add: "foldl (+) a xs = a + sum_list xs" for a :: rat
  by (induction xs arbitrary: a) (simp_all add: add.assoc)

lemma py_sum_eq: "py_sum xs = sum_list xs"
  by (simp add: py_sum_def foldl_add)

lemma foldl_first_max:
  "first_max f (x # xs) (foldl (\<lambda>best y. if f best < f y then y else best) x xs)"
proof (induction xs rule: rev_induct)
  case Nil
  show ?case
    unfolding first_max_def by (rule exI [of _ "[]"], rule exI [of _ "[]"]) simp
next
  case (snoc y ys)
  let ?c = "foldl (\<lambda>best y. if f best < f y then y else best) x ys"
  from snoc obtain before after where
    split: "x # ys = before @ ?c # after"
    and before: "\<forall>z \<in> set before. f z < f ?c"
    and after: "\<forall>z \<in> set after. f z \<le> f ?c"
    unfolding first_max_def by blast
  show ?case
  proof (cases "f ?c < f y")
    case True
    have "x # ys @ [y] = (x # ys) @ y # []" by simp
    moreover have "\<forall>z \<in> set (x # ys). f z < f y"
    proof
      fix z assume "z \<in> set (x # ys)"
      then have "z \<in> set before \<or> z = ?c \<or> z \<in> set after"
        unfolding split by auto
      with before after True show "f z < f y" by force
    qed
    ultimately have "first_max f (x # ys @ [y]) y"
      unfolding first_max_def by (metis empty_iff empty_set)
    with True show ?thesis by simp
  next
    case False
    have "x # ys @ [y] = before @ ?c # (after @ [y])"
      using split by simp
    moreover have "\<forall>z \<in> set (after @ [y]). f z \<le> f ?c"
      using after False by auto
    ultimately have "first_max f (x # ys @ [y]) ?c"
      unfolding first_max_def using before by blast
    with False show ?thesis by simp
  qed
qed

lemma py_max_key_first_max:
  "xs \<noteq> [] \<Longrightarrow> \<exists>c. py_max_key f xs = Returned c \<and> first_max f xs c"
  by (cases xs) (simp_all add: foldl_first_max)

lemma first_max_greatest:
  "first_max f xs c \<Longrightarrow> c \<in> set xs \<and> (\<forall>y \<in> set xs. f y \<le> f c)"
  unfolding first_max_def by force

lemma create_daily_forecast_record:
  assumes "daily_data \<noteq> []"
    and "py_max_key (count_list (map significantWeatherCode daily_data))
           (set_iter (map significantWeatherCode daily_data)) = Returned code"
  shows "create_daily_forecast set_iter daily_data =
     Returned
       \<lparr>forecast_time = time (hd daily_data),
        forecast_native_temp = Max (set (map screenTemperature daily_data)),
        forecast_native_temp_low = Min (set (map screenTemperature daily_data)),
        forecast_condition = condition_name code,
        forecast_native_precipitation = sum_list (map precipitationRate daily_data),
        forecast_precipitation_probability = Max (set (map probOfPrecipitation daily_data)),
        forecast_wind_speed = Max (set (map windSpeed10m daily_data)),
        forecast_wind_bearing =
          sum_list (map windDirectionFrom10m daily_data) / of_nat (length daily_data)\<rparr>"
proof -
  from assms(1) obtain e es where "daily_data = e # es"
    by (cases daily_data) auto
  then have "first daily_data = Returned (hd daily_data)" by simp
  with assms show ?thesis
    by (simp add: create_daily_forecast_def Let_def py_max_eq py_min_eq py_sum_eq div_len_def)
qed

lemma create_daily_forecast_returns:
  assumes "daily_data \<noteq> []"
    and "set (set_iter (map significantWeatherCode daily_data))
           = set (map significantWeatherCode daily_data)"
  shows "\<exists>forecast. create_daily_forecast set_iter daily_data = Returned forecast"
proof -
  from assms have "set_iter (map significantWeatherCode daily_data) \<noteq> []"
    by (metis list.map_disc_iff set_empty)
  from py_max_key_first_max [OF this] obtain code where
    "py_max_key (count_list (map significantWeatherCode daily_data))
       (set_iter (map significantWeatherCode daily_data)) = Returned code"
    by blast
  with assms(1) show ?thesis
    by (simp add: create_daily_forecast_record [where set_iter = set_iter])
qed

section \<open>Properties of one day\<close>

lemma set_ascending: "set (ascending xs) = set xs"
  by (simp add: ascending_def)

text \<open>
  \<^bold>\<open>C8, amended.\<close>  For a non-empty run of entries, and an iteration of the set of
  codes that yields exactly the codes of the run, the daily forecast has the timestamp
  of the first entry, the maximum and the minimum of the screen temperatures, the sum
  of the precipitation rates, the maximum of the precipitation probabilities, the
  maximum of the wind speeds, the arithmetic mean of the wind bearings, and the
  condition that the table gives for a most frequent code of the run.  Among equally
  frequent codes the one taken is the first in the iteration order of the set of codes,
  which is not the order of the entries.
\<close>

theorem daily_forecast_reducers:
  assumes "daily_data \<noteq> []"
    and "set (set_iter (map significantWeatherCode daily_data))
           = set (map significantWeatherCode daily_data)"
  shows "\<exists>code.
     create_daily_forecast set_iter daily_data =
       Returned
         \<lparr>forecast_time = time (hd daily_data),
          forecast_native_temp = Max (set (map screenTemperature daily_data)),
          forecast_native_temp_low = Min (set (map screenTemperature daily_data)),
          forecast_condition = condition_name code,
          forecast_native_precipitation = sum_list (map precipitationRate daily_data),
          forecast_precipitation_probability = Max (set (map probOfPrecipitation daily_data)),
          forecast_wind_speed = Max (set (map windSpeed10m daily_data)),
          forecast_wind_bearing =
            sum_list (map windDirectionFrom10m daily_data) / of_nat (length daily_data)\<rparr>
     \<and> code \<in> set (map significantWeatherCode daily_data)
     \<and> (\<forall>other \<in> set (map significantWeatherCode daily_data).
           count_list (map significantWeatherCode daily_data) other
             \<le> count_list (map significantWeatherCode daily_data) code)
     \<and> first_max (count_list (map significantWeatherCode daily_data))
           (set_iter (map significantWeatherCode daily_data)) code"
proof -
  let ?codes = "map significantWeatherCode daily_data"
  from assms have "set_iter ?codes \<noteq> []"
    by (metis list.map_disc_iff set_empty)
  from py_max_key_first_max [OF this] obtain code where
    code: "py_max_key (count_list ?codes) (set_iter ?codes) = Returned code"
    and first: "first_max (count_list ?codes) (set_iter ?codes) code"
    by blast
  from first_max_greatest [OF first] assms(2)
  have "code \<in> set ?codes" "\<forall>other \<in> set ?codes. count_list ?codes other \<le> count_list ?codes code"
    by simp_all
  with first create_daily_forecast_record [where set_iter = set_iter, OF assms(1) code]
  show ?thesis by blast
qed

theorem daily_forecast_reducers_witness:
  "create_daily_forecast ascending
     [example_entry ''2024-05-01T00:00Z'' 8 7, example_entry ''2024-05-01T01:00Z'' 6 1,
      example_entry ''2024-05-01T02:00Z'' 10 7] =
     Returned
       \<lparr>forecast_time = ''2024-05-01T00:00Z'',
        forecast_native_temp = 10,
        forecast_native_temp_low = 6,
        forecast_condition = ''cloudy'',
        forecast_native_precipitation = 3 / 2,
        forecast_precipitation_probability = 20,
        forecast_wind_speed = 4,
        forecast_wind_bearing = 80\<rparr>"
proof -
  let ?day = "[example_entry ''2024-05-01T00:00Z'' 8 7, example_entry ''2024-05-01T01:00Z'' 6 1,
      example_entry ''2024-05-01T02:00Z'' 10 7]"
  have nonempty: "?day \<noteq> []" by simp
  have codes: "set (ascending (map significantWeatherCode ?day))
      = set (map significantWeatherCode ?day)"
    by (rule set_ascending)
  from daily_forecast_reducers [where set_iter = ascending, OF nonempty codes]
  obtain code where
    rec: "create_daily_forecast ascending ?day =
       Returned
         \<lparr>forecast_time = time (hd ?day),
          forecast_native_temp = Max (set (map screenTemperature ?day)),
          forecast_native_temp_low = Min (set (map screenTemperature ?day)),
          forecast_condition = condition_name code,
          forecast_native_precipitation = sum_list (map precipitationRate ?day),
          forecast_precipitation_probability = Max (set (map probOfPrecipitation ?day)),
          forecast_wind_speed = Max (set (map windSpeed10m ?day)),
          forecast_wind_bearing =
            sum_list (map windDirectionFrom10m ?day) / of_nat (length ?day)\<rparr>"
    and mem: "code \<in> set (map significantWeatherCode ?day)"
    and greatest: "\<forall>other \<in> set (map significantWeatherCode ?day).
           count_list (map significantWeatherCode ?day) other
             \<le> count_list (map significantWeatherCode ?day) code"
    by blast
  from mem greatest have "code = 7"
    by (auto simp: example_entry_def)
  with rec show ?thesis
    by (simp add: example_entry_def condition_name_def CONDITION_MAP_def)
qed

text \<open>
  \<^bold>\<open>C8 as stated fails.\<close>  A day of two entries with the codes 7 and then 1, each
  once: the set \<^verbatim>\<open>{7, 1}\<close> is iterated as 1, 7, so the code taken is 1
  (\<open>sunny\<close>), while the first-encountered most frequent code is 7 (\<open>cloudy\<close>).
\<close>

theorem tie_break_counterexample:
  "create_daily_forecast ascending
     [example_entry ''2024-05-01T00:00Z'' 8 7, example_entry ''2024-05-01T01:00Z'' 6 1] =
     Returned
       \<lparr>forecast_time = ''2024-05-01T00:00Z'',
        forecast_native_temp = 8,
        forecast_native_temp_low = 6,
        forecast_condition = ''sunny'',
        forecast_native_precipitation = 1,
        forecast_precipitation_probability = 20,
        forecast_wind_speed = 4,
        forecast_wind_bearing = 70\<rparr>
   \<and> first_encountered_mode
       (map significantWeatherCode
          [example_entry ''2024-05-01T00:00Z'' 8 7, example_entry ''2024-05-01T01:00Z'' 6 1])
       = Returned 7
   \<and> condition_name 7 = ''cloudy''"
  by (simp add: create_daily_forecast_def Let_def example_entry_def ascending_def
      first_encountered_mode_def condition_name_def CONDITION_MAP_def py_sum_def div_len_def)

section \<open>Properties of the grouping into days\<close>

lemma runs_by_eq_Nil [simp]: "runs_by key xs = [] \<longleftrightarrow> xs = []"
  by (cases xs) (auto split: list.splits)

lemma runs_by_Cons_hd:
  "runs_by key (x # xs) = g # gs \<Longrightarrow> g \<noteq> [] \<and> hd g = x"
  by (auto split: list.splits if_splits)

lemma runs_by_nonempty: "g \<in> set (runs_by key xs) \<Longrightarrow> g \<noteq> []"
proof (induction xs arbitrary: g)
  case Nil
  then show ?case by simp
next
  case (Cons x xs)
  then show ?case by (auto split: list.splits if_splits)
qed

lemma runs_by_same_key:
  "g \<in> set (runs_by key xs) \<Longrightarrow> y \<in> set g \<Longrightarrow> key y = key (hd g)"
proof (induction xs arbitrary: g y)
  case Nil
  then show ?case by simp
next
  case (Cons x xs)
  show ?case
  proof (cases "runs_by key xs")
    case Nil
    with Cons.prems show ?thesis by simp
  next
    case (Cons h hs)
    then have h: "h \<in> set (runs_by key xs)" by simp
    show ?thesis
    proof (cases "key x = key (hd h)")
      case True
      with Cons Cons.prems have "g = x # h \<or> g \<in> set hs" by auto
      then show ?thesis
      proof
        assume g: "g = x # h"
        with Cons.prems(2) have "y = x \<or> y \<in> set h" by auto
        then show ?thesis
          using g True Cons.IH [OF h] by auto
      next
        assume "g \<in> set hs"
        with Cons have "g \<in> set (runs_by key xs)" by simp
        from Cons.IH [OF this Cons.prems(2)] show ?thesis .
      qed
    next
      case False
      with Cons Cons.prems have "g = [x] \<or> g \<in> set (runs_by key xs)" by auto
      then show ?thesis
      proof
        assume "g = [x]"
        with Cons.prems(2) show ?thesis by simp
      next
        assume "g \<in> set (runs_by key xs)"
        from Cons.IH [OF this Cons.prems(2)] show ?thesis .
      qed
    qed
  qed
qed

lemma concat_runs_by: "concat (runs_by key xs) = xs"
  by (induction xs) (auto split: list.splits)

lemma distinct_adj_runs_by: "distinct_adj (map (\<lambda>g. key (hd g)) (runs_by key xs))"
  by (induction xs) (auto split: list.splits)

lemma runs_by_append_same:
  assumes "xs \<noteq> []" and "\<forall>x \<in> set xs. key x = k"
  shows "runs_by key (xs @ ys) =
    (case runs_by key ys of
       [] \<Rightarrow> [xs]
     | g # gs \<Rightarrow> if key (hd g) = k then (xs @ g) # gs else xs # g # gs)"
  using assms
proof (induction xs rule: list_nonempty_induct)
  case (single x)
  then show ?case by (auto split: list.splits)
next
  case (cons x xs)
  then show ?case by (auto split: list.splits)
qed

lemma runs_by_single_run:
  assumes "xs \<noteq> []" and "\<forall>x \<in> set xs. key x = k"
  shows "runs_by key xs = [xs]"
  using runs_by_append_same [OF assms, of "[]"] by simp

lemma runs_by_new_run:
  assumes "xs \<noteq> []" and "\<forall>x \<in> set xs. key x = k" and "key y \<noteq> k"
  shows "runs_by key (xs @ y # ys) = xs # runs_by key (y # ys)"
proof -
  obtain g gs where g: "runs_by key (y # ys) = g # gs"
    using runs_by_eq_Nil [of key "y # ys"] by (cases "runs_by key (y # ys)") blast+
  from runs_by_Cons_hd [OF g] have "hd g = y" by simp
  with assms(3) g show ?thesis
    by (simp only: runs_by_append_same [OF assms(1,2)] list.case if_False)
qed

lemma collect_single: "collect [r] = and_then r (\<lambda>x. Returned [x])"
  by (cases r) simp_all

lemma daily_loop_runs:
  assumes "(daily_data = [] \<and> current_day = None)
     \<or> (daily_data \<noteq> [] \<and> current_day \<noteq> None
         \<and> (\<forall>e \<in> set daily_data. parse_date (time e) = current_day))"
  shows "daily_loop parse_date set_iter ts daily_forecasts current_day daily_data =
    and_then
      (collect (map (create_daily_forecast set_iter)
         (runs_by (\<lambda>e. parse_date (time e))
            (daily_data @ filter (parses parse_date) ts))))
      (\<lambda>forecasts. Returned (daily_forecasts @ forecasts))"
  using assms
proof (induction ts arbitrary: daily_forecasts current_day daily_data)
  case Nil
  show ?case
  proof (cases "daily_data = []")
    case True
    then show ?thesis by simp
  next
    case False
    with Nil have "\<forall>e \<in> set daily_data. parse_date (time e) = current_day" by blast
    from runs_by_single_run [OF False this] False show ?thesis
      by (simp add: collect_single and_then_assoc)
  qed
next
  case (Cons entry rest)
  let ?key = "\<lambda>e. parse_date (time e)"
  show ?case
  proof (cases "parse_date (time entry)")
    case None
    with Cons.IH [OF Cons.prems] show ?thesis
      by (simp add: parses_def)
  next
    case (Some day)
    then have keep: "filter (parses parse_date) (entry # rest)
        = entry # filter (parses parse_date) rest"
      by (simp add: parses_def)
    show ?thesis
    proof (cases current_day)
      case None
      with Cons.prems have empty: "daily_data = []" by blast
      have "daily_loop parse_date set_iter (entry # rest) daily_forecasts current_day daily_data
          = daily_loop parse_date set_iter rest daily_forecasts (Some day) [entry]"
        using Some None empty by simp
      also have "\<dots> = and_then
          (collect (map (create_daily_forecast set_iter)
             (runs_by ?key ([entry] @ filter (parses parse_date) rest))))
          (\<lambda>forecasts. Returned (daily_forecasts @ forecasts))"
        by (rule Cons.IH) (simp add: Some)
      finally show ?thesis
        using empty keep by simp
    next
      case (Some cur)
      note cur = this
      with Cons.prems have full: "daily_data \<noteq> []"
        and same: "\<forall>e \<in> set daily_data. ?key e = Some cur"
        by auto
      show ?thesis
      proof (cases "day = cur")
        case True
        have "daily_loop parse_date set_iter (entry # rest) daily_forecasts current_day
            daily_data
          = daily_loop parse_date set_iter rest daily_forecasts current_day
              (daily_data @ [entry])"
          using \<open>parse_date (time entry) = Some day\<close> cur True by simp
        also have "\<dots> = and_then
            (collect (map (create_daily_forecast set_iter)
               (runs_by ?key ((daily_data @ [entry]) @ filter (parses parse_date) rest))))
            (\<lambda>forecasts. Returned (daily_forecasts @ forecasts))"
          by (rule Cons.IH)
            (use same cur True \<open>parse_date (time entry) = Some day\<close> in auto)
        finally show ?thesis
          using keep by simp
      next
        case False
        have key_entry: "?key entry \<noteq> Some cur"
          using False \<open>parse_date (time entry) = Some day\<close> by simp
        have split: "runs_by ?key (daily_data @ entry # filter (parses parse_date) rest)
            = daily_data # runs_by ?key (entry # filter (parses parse_date) rest)"
          by (rule runs_by_new_run [OF full same key_entry])
        have next_day: "daily_loop parse_date set_iter rest fs (Some day) [entry]
            = and_then
                (collect (map (create_daily_forecast set_iter)
                   (runs_by ?key ([entry] @ filter (parses parse_date) rest))))
                (\<lambda>forecasts. Returned (fs @ forecasts))" for fs
          by (rule Cons.IH) (simp add: \<open>parse_date (time entry) = Some day\<close>)
        have "daily_loop parse_date set_iter (entry # rest) daily_forecasts current_day
            daily_data
          = and_then (create_daily_forecast set_iter daily_data)
              (\<lambda>forecast. daily_loop parse_date set_iter rest (daily_forecasts @ [forecast])
                 (Some day) [entry])"
          using \<open>parse_date (time entry) = Some day\<close> cur False full by simp
        then show ?thesis
          unfolding keep split next_day
          by (cases "create_daily_forecast set_iter daily_data")
            (simp_all add: and_then_assoc)
      qed
    qed
  qed
qed

lemma collect_returns:
  assumes "\<forall>x \<in> set xs. \<exists>y. f x = Returned y"
  shows "\<exists>ys. collect (map f xs) = Returned ys \<and> length ys = length xs"
  using assms
proof (induction xs)
  case Nil
  then show ?case by simp
next
  case (Cons x xs)
  then obtain y ys where "f x = Returned y" "collect (map f xs) = Returned ys"
    "length ys = length xs"
    by auto
  then show ?case by simp
qed

lemma date_runs_three:
  assumes "first_day \<noteq> []" and "between \<noteq> []" and "again \<noteq> []"
    and "\<forall>e \<in> set first_day \<union> set again. parse_date (time e) = Some d"
    and "\<forall>e \<in> set between. parse_date (time e) = Some d'"
    and "d \<noteq> d'"
  shows "date_runs parse_date (first_day @ between @ again) = [first_day, between, again]"
proof -
  let ?key = "\<lambda>e. parse_date (time e)"
  from assms(2) obtain b bs where b: "between = b # bs" by (cases between) auto
  from assms(3) obtain a as where a: "again = a # as" by (cases again) auto
  have all: "filter (parses parse_date) (first_day @ between @ again)
      = first_day @ between @ again"
    using assms(4,5) by (auto simp: parses_def)
  have "runs_by ?key (first_day @ b # (bs @ again))
      = first_day # runs_by ?key (b # (bs @ again))"
    by (rule runs_by_new_run [where k = "Some d"]) (use assms b in auto)
  moreover have "runs_by ?key (between @ a # as) = between # runs_by ?key (a # as)"
    by (rule runs_by_new_run [where k = "Some d'"]) (use assms a in auto)
  moreover have "runs_by ?key again = [again]"
    by (rule runs_by_single_run [where k = "Some d"]) (use assms in auto)
  ultimately show ?thesis
    unfolding date_runs_def all using a b by simp
qed

lemma async_forecast_daily_runs: "features response = feature # others \<longrightarrow>
      async_forecast_daily parse_date set_iter (Some response) =
        and_then
          (collect (map (create_daily_forecast set_iter)
             (date_runs parse_date (timeSeries (properties feature)))))
          (\<lambda>forecasts. Returned (Some forecasts))"
proof
  assume "features response = feature # others"
  then have "async_forecast_daily parse_date set_iter (Some response) =
     and_then (daily_loop parse_date set_iter (timeSeries (properties feature)) [] None [])
            (\<lambda>daily_forecasts. Returned (Some daily_forecasts))"
    by (simp add: async_forecast_daily_def)
  also have "daily_loop parse_date set_iter (timeSeries (properties feature)) [] None []
    = and_then
      (collect (map (create_daily_forecast set_iter)
         (runs_by (\<lambda>e. parse_date (time e))
            ([] @ filter (parses parse_date) (timeSeries (properties feature))))))
      (\<lambda>forecasts. Returned ([] @ forecasts))"
    by (rule daily_loop_runs) simp
  finally show "async_forecast_daily parse_date set_iter (Some response) =
        and_then
          (collect (map (create_daily_forecast set_iter)
             (date_runs parse_date (timeSeries (properties feature)))))
          (\<lambda>forecasts. Returned (Some forecasts))"
    by (simp add: date_runs_def and_then_assoc)
qed

lemma date_runs_shape: "\<forall>run \<in> set (date_runs parse_date ts).
      run \<noteq> [] \<and> (\<forall>e \<in> set run. parse_date (time e) = parse_date (time (hd run)))"
proof (intro ballI conjI)
  fix run assume "run \<in> set (date_runs parse_date ts)"
  then show "run \<noteq> []"
    unfolding date_runs_def by (rule runs_by_nonempty)
next
  fix run e assume "run \<in> set (date_runs parse_date ts)" and "e \<in> set run"
  then show "parse_date (time e) = parse_date (time (hd run))"
    unfolding date_runs_def by (rule runs_by_same_key)
qed

lemma date_runs_records: "(\<forall>codes. set (set_iter codes) = set codes) \<longrightarrow>
        (\<exists>forecasts.
           collect (map (create_daily_forecast set_iter) (date_runs parse_date ts))
             = Returned forecasts
           \<and> length forecasts = length (date_runs parse_date ts))"
proof
  assume iter: "\<forall>codes. set (set_iter codes) = set codes"
  have "\<forall>run \<in> set (date_runs parse_date ts).
        \<exists>forecast. create_daily_forecast set_iter run = Returned forecast"
  proof
    fix run assume "run \<in> set (date_runs parse_date ts)"
    with date_runs_shape have "run \<noteq> []" by blast
    moreover from iter have "set (set_iter (map significantWeatherCode run))
           = set (map significantWeatherCode run)" by (rule spec)
    ultimately show "\<exists>forecast. create_daily_forecast set_iter run = Returned forecast"
      by (rule create_daily_forecast_returns)
  qed
  then show "\<exists>forecasts.
           collect (map (create_daily_forecast set_iter) (date_runs parse_date ts))
             = Returned forecasts
           \<and> length forecasts = length (date_runs parse_date ts)"
    by (rule collect_returns)
qed

text \<open>
  \<^bold>\<open>C7.\<close>  On a stored response with a first feature, the daily forecast is made of
  one call of \<^verbatim>\<open>_create_daily_forecast\<close> for each run of \<open>date_runs\<close>, in order,
  where \<open>date_runs\<close> cuts the entries whose timestamp parses into the runs of adjacent
  entries with the same calendar date.  The runs put together are exactly the entries
  that parse, in the order of the input: an entry that does not parse is in no run.
  Each run is non-empty and all its entries have the date of its first entry; two
  adjacent runs have different dates, so that a run ends exactly where the date
  changes.  Two runs of the same date that are separated by a run of another date stay
  two runs.  When the iteration of the set of codes yields exactly the codes, every
  run gives one record.
\<close>

theorem daily_forecast_partition:
  "(features response = feature # others \<longrightarrow>
      async_forecast_daily parse_date set_iter (Some response) =
        and_then
          (collect (map (create_daily_forecast set_iter)
             (date_runs parse_date (timeSeries (properties feature)))))
          (\<lambda>forecasts. Returned (Some forecasts)))
   \<and> concat (date_runs parse_date ts) = filter (parses parse_date) ts
   \<and> (\<forall>run \<in> set (date_runs parse_date ts).
         run \<noteq> [] \<and> (\<forall>e \<in> set run. parse_date (time e) = parse_date (time (hd run))))
   \<and> distinct_adj (map (\<lambda>run. parse_date (time (hd run))) (date_runs parse_date ts))
   \<and> (first_day \<noteq> [] \<and> between \<noteq> [] \<and> again \<noteq> []
        \<and> (\<forall>e \<in> set first_day \<union> set again. parse_date (time e) = Some d)
        \<and> (\<forall>e \<in> set between. parse_date (time e) = Some d')
        \<and> d \<noteq> d' \<longrightarrow>
      date_runs parse_date (first_day @ between @ again) = [first_day, between, again])
   \<and> ((\<forall>codes. set (set_iter codes) = set codes) \<longrightarrow>
        (\<exists>forecasts.
           collect (map (create_daily_forecast set_iter) (date_runs parse_date ts))
             = Returned forecasts
           \<and> length forecasts = length (date_runs parse_date ts)))"
proof -
  have order: "concat (date_runs parse_date ts) = filter (parses parse_date) ts"
    by (simp add: date_runs_def concat_runs_by)
  have boundaries:
    "distinct_adj (map (\<lambda>run. parse_date (time (hd run))) (date_runs parse_date ts))"
    unfolding date_runs_def by (rule distinct_adj_runs_by)
  have separate: "first_day \<noteq> [] \<and> between \<noteq> [] \<and> again \<noteq> []
        \<and> (\<forall>e \<in> set first_day \<union> set again. parse_date (time e) = Some d)
        \<and> (\<forall>e \<in> set between. parse_date (time e) = Some d')
        \<and> d \<noteq> d' \<longrightarrow>
      date_runs parse_date (first_day @ between @ again) = [first_day, between, again]"
  proof (intro impI, elim conjE)
    assume "first_day \<noteq> []" "between \<noteq> []" "again \<noteq> []"
      "\<forall>e \<in> set first_day \<union> set again. parse_date (time e) = Some d"
      "\<forall>e \<in> set between. parse_date (time e) = Some d'" "d \<noteq> d'"
    then show "date_runs parse_date (first_day @ between @ again)
        = [first_day, between, again]"
      by (rule date_runs_three)
  qed
  note parts = async_forecast_daily_runs order date_runs_shape boundaries separate
    date_runs_records
  show ?thesis by (intro conjI parts)
qed

lemma example_runs:
  "date_runs iso_date example_series =
     [[example_entry ''2024-05-01T22:00Z'' 8 7, example_entry ''2024-05-01T23:00Z'' 6 7],
      [example_entry ''2024-05-02T00:00Z'' 5 1],
      [example_entry ''2024-05-01T23:30Z'' 9 12]]"
  by (simp add: date_runs_def parses_def iso_date_def example_series_def example_entry_def)

text \<open>
  Two entries of 1 May, an entry whose timestamp does not parse, an entry of 2 May and
  a late entry of 1 May again: three records, the last one for the second run of 1 May.
\<close>

theorem daily_forecast_partition_witness:
  "async_forecast_daily iso_date ascending
     (Some \<lparr>features = [\<lparr>properties = \<lparr>timeSeries = example_series\<rparr>\<rparr>]\<rparr>) =
   Returned (Some
     [\<lparr>forecast_time = ''2024-05-01T22:00Z'', forecast_native_temp = 8,
       forecast_native_temp_low = 6, forecast_condition = ''cloudy'',
       forecast_native_precipitation = 1, forecast_precipitation_probability = 20,
       forecast_wind_speed = 4, forecast_wind_bearing = 70\<rparr>,
      \<lparr>forecast_time = ''2024-05-02T00:00Z'', forecast_native_temp = 5,
       forecast_native_temp_low = 5, forecast_condition = ''sunny'',
       forecast_native_precipitation = 1 / 2, forecast_precipitation_probability = 20,
       forecast_wind_speed = 4, forecast_wind_bearing = 50\<rparr>,
      \<lparr>forecast_time = ''2024-05-01T23:30Z'', forecast_native_temp = 9,
       forecast_native_temp_low = 9, forecast_condition = ''rainy'',
       forecast_native_precipitation = 1 / 2, forecast_precipitation_probability = 20,
       forecast_wind_speed = 4, forecast_wind_bearing = 90\<rparr>])"
proof -
  have runs: "async_forecast_daily iso_date ascending
      (Some \<lparr>features = [\<lparr>properties = \<lparr>timeSeries = example_series\<rparr>\<rparr>]\<rparr>) =
      and_then
        (collect (map (create_daily_forecast ascending) (date_runs iso_date example_series)))
        (\<lambda>forecasts. Returned (Some forecasts))"
    using daily_forecast_partition
      [of "\<lparr>features = [\<lparr>properties = \<lparr>timeSeries = example_series\<rparr>\<rparr>]\<rparr>"
        "\<lparr>properties = \<lparr>timeSeries = example_series\<rparr>\<rparr>" "[]" iso_date ascending]
    by simp
  show ?thesis
    unfolding runs example_runs
    by (simp add: create_daily_forecast_def Let_def example_entry_def ascending_def
        condition_name_def CONDITION_MAP_def py_sum_def div_len_def)
qed

end
